theory Spec2Isabelle
  imports Main "HOL-Library.Sublist"
begin

section \<open>The SQL ETL command-line tool (cli\_sql\_etl.py)\<close>

text \<open>
  The tool is a group of five click commands. Each command prints progress lines with
  \<^verbatim>\<open>click.echo\<close>, reads or writes CSV files through pandas, and (for the extract
  command) talks to SQL Server through pyodbc. A command is modelled as a function from
  the state of the outside world to an outcome and the state the command leaves behind;
  an uncaught Python exception is the outcome \<open>Inl e\<close>, and the world returned with it is
  the world at the moment the exception was raised. The report command, which prints the
  table of \<^verbatim>\<open>df.describe\<close>, is left out: no property below is about it.
\<close>

subsection \<open>Tabular data\<close>

text \<open>
  A cell of a pandas DataFrame is a missing value (NaN), a number, or a text. The type
  of the numbers is a parameter: nothing the commands do depends on arithmetic.
\<close>

datatype 'n cell = NaN | Num 'n | Str string

text \<open>
  A DataFrame: the column labels in order and the rows in order, every row holding one
  cell per column.
\<close>

record 'n dataframe =
  columns :: "string list"
  rows :: "'n cell list list"

definition wf_dataframe :: "'n dataframe \<Rightarrow> bool" where
  "wf_dataframe df =
     (distinct (columns df) \<and> list_all (\<lambda>r. length r = length (columns df)) (rows df))"

text \<open>Position of the first occurrence of a label (the column's integer location).\<close>

fun index_of :: "'a \<Rightarrow> 'a list \<Rightarrow> nat" where
  "index_of x [] = 0"
| "index_of x (y # ys) = (if x = y then 0 else Suc (index_of x ys))"

text \<open>Keeping the positions of a list that a boolean mask flags.\<close>

fun compress :: "bool list \<Rightarrow> 'a list \<Rightarrow> 'a list" where
  "compress (b # bs) (x # xs) = (if b then x # compress bs xs else compress bs xs)"
| "compress _ _ = []"

text \<open>
  \<^verbatim>\<open>df.drop(columns=names, errors='ignore')\<close>: the columns whose label is among the
  names are removed from the labels and from every row; a name that labels no column is
  ignored.
\<close>

definition drop_columns :: "string list \<Rightarrow> 'n dataframe \<Rightarrow> 'n dataframe" where
  "drop_columns names df =
     (let keep = map (\<lambda>c. c \<notin> set names) (columns df)
      in \<lparr>columns = compress keep (columns df), rows = map (compress keep) (rows df)\<rparr>)"

text \<open>\<^verbatim>\<open>df.dropna()\<close>: the rows without any missing value, in their order.\<close>

definition dropna :: "'n dataframe \<Rightarrow> 'n dataframe" where
  "dropna df = df\<lparr>rows := filter (\<lambda>r. NaN \<notin> set r) (rows df)\<rparr>"

subsection \<open>Errors\<close>

text \<open>
  The exceptions the commands can raise. \<open>NotModelled\<close> is not a Python exception: the
  concrete CSV reader below returns it on files outside the part of pandas it models.
\<close>

datatype error =
    FileNotFoundError string
  | EmptyDataError
  | ParserError
  | KeyError string
  | PermissionError string
  | InterfaceError
  | DatabaseError
  | NotModelled

text \<open>
  \<^verbatim>\<open>df[label]\<close>: the column as a series of cells, or KeyError when no column has the
  label.
\<close>

definition getitem :: "'n dataframe \<Rightarrow> string \<Rightarrow> error + 'n cell list" where
  "getitem df label =
     (if label \<in> set (columns df)
      then Inr (map (\<lambda>r. r ! index_of label (columns df)) (rows df))
      else Inl (KeyError label))"

text \<open>
  \<^verbatim>\<open>series == text\<close>: the elementwise comparison with a Python string. A missing value
  and a number are never equal to a string.
\<close>

definition series_eq :: "'n cell list \<Rightarrow> string \<Rightarrow> bool list" where
  "series_eq s v = map (\<lambda>x. x = Str v) s"

text \<open>\<^verbatim>\<open>df[mask]\<close>: the rows the boolean series flags.\<close>

definition boolean_index :: "'n dataframe \<Rightarrow> bool list \<Rightarrow> 'n dataframe" where
  "boolean_index df flags = df\<lparr>rows := compress flags (rows df)\<rparr>"

subsection \<open>The outside world\<close>

text \<open>
  The files on disk (path to content), the paths that cannot be written, the lines
  printed so far, the process environment, and the number of database connections that
  are open.
\<close>

record world =
  files :: "string \<rightharpoonup> string"
  write_protected :: "string set"
  stdout :: "string list"
  environ :: "string \<rightharpoonup> string"
  open_connections :: nat

definition echo :: "string \<Rightarrow> world \<Rightarrow> world" where
  "echo line w = w\<lparr>stdout := stdout w @ [line]\<rparr>"

text \<open>
  The CSV reader and writer of pandas are a parameter of the commands: \<open>parse_csv\<close> is
  what \<^verbatim>\<open>pd.read_csv\<close> makes of a file's content, \<open>format_csv\<close> is the text that
  \<^verbatim>\<open>df.to_csv(path, index=False)\<close> writes.
\<close>

record 'n pandas =
  parse_csv :: "string \<Rightarrow> error + 'n dataframe"
  format_csv :: "'n dataframe \<Rightarrow> string"

definition read_csv :: "'n pandas \<Rightarrow> world \<Rightarrow> string \<Rightarrow> error + 'n dataframe" where
  "read_csv pd w path =
     (case files w path of
        None \<Rightarrow> Inl (FileNotFoundError path)
      | Some content \<Rightarrow> parse_csv pd content)"

definition to_csv :: "'n pandas \<Rightarrow> 'n dataframe \<Rightarrow> string \<Rightarrow> world \<Rightarrow> error + world" where
  "to_csv pd df path w =
     (if path \<in> write_protected w then Inl (PermissionError path)
      else Inr (w\<lparr>files := (files w)(path \<mapsto> format_csv pd df)\<rparr>))"

subsection \<open>Progress lines\<close>

text \<open>
  The lines are byte strings: the pictographs that start them are written as their UTF-8
  bytes.
\<close>

definition wrench :: string where
  "wrench = [CHR 0xF0, CHR 0x9F, CHR 0x94, CHR 0xA7]"

definition broom :: string where
  "broom = [CHR 0xF0, CHR 0x9F, CHR 0xA7, CHR 0xB9]"

definition magnifier_right :: string where
  "magnifier_right = [CHR 0xF0, CHR 0x9F, CHR 0x94, CHR 0x8E]"

definition magnifier_left :: string where
  "magnifier_left = [CHR 0xF0, CHR 0x9F, CHR 0x94, CHR 0x8D]"

definition folder :: string where
  "folder = [CHR 0xF0, CHR 0x9F, CHR 0x93, CHR 0x81]"


definition check_mark :: string where
  "check_mark = [CHR 0xE2, CHR 0x9C, CHR 0x85]"

definition exclamation :: string where
  "exclamation = [CHR 0xE2, CHR 0x9D, CHR 0x97]"

text \<open>\<^verbatim>\<open>sep.join(parts)\<close>.\<close>

fun join :: "string \<Rightarrow> string list \<Rightarrow> string" where
  "join sep [] = []"
| "join sep [p] = p"
| "join sep (p # q # ps) = p @ sep @ join sep (q # ps)"

definition transforming_msg :: "string \<Rightarrow> string" where
  "transforming_msg input = wrench @ '' Transforming '' @ input"

definition dropped_columns_prefix :: string where
  "dropped_columns_prefix = broom @ '' Dropped columns: ''"

definition dropped_columns_msg :: "string list \<Rightarrow> string" where
  "dropped_columns_msg drop_cols = dropped_columns_prefix @ join '', '' drop_cols"

definition dropped_nulls_msg :: string where
  "dropped_nulls_msg = broom @ '' Dropped nulls''"

definition filtered_prefix :: string where
  "filtered_prefix = magnifier_right @ '' Filtered by department: ''"

definition filtered_msg :: "string \<Rightarrow> string" where
  "filtered_msg filter_dept = filtered_prefix @ filter_dept"

definition saved_msg :: "string \<Rightarrow> string" where
  "saved_msg path = folder @ '' Saved to '' @ path"

subsection \<open>The transform command\<close>

text \<open>
  Lines 51 to 61 of the source: the three optional steps on the DataFrame that was read,
  each with the line it prints. Python tests the options for truth: the tuple of column
  names is true when it is not empty, the department is true when it was given and is
  not the empty string.
\<close>

definition transform_steps ::
  "bool \<Rightarrow> string list \<Rightarrow> string option \<Rightarrow> 'n dataframe \<Rightarrow> world \<Rightarrow>
     (error + 'n dataframe) \<times> world" where
  "transform_steps drop_null drop_cols filter_dept df0 w0 =
     (let (df1, w1) =
            (if drop_cols \<noteq> []
             then (drop_columns drop_cols df0, echo (dropped_columns_msg drop_cols) w0)
             else (df0, w0));
          (df2, w2) =
            (if drop_null then (dropna df1, echo dropped_nulls_msg w1) else (df1, w1))
      in case filter_dept of
           None \<Rightarrow> (Inr df2, w2)
         | Some v \<Rightarrow>
             if v \<noteq> []
             then (case getitem df2 ''department'' of
                     Inl e \<Rightarrow> (Inl e, w2)
                   | Inr s \<Rightarrow> (Inr (boolean_index df2 (series_eq s v)), echo (filtered_msg v) w2))
             else (Inr df2, w2))"

text \<open>
  The command: print, read the input file, run the steps, write
  \<^verbatim>\<open>transformed_sql.csv\<close>, print.
\<close>

definition transform ::
  "'n pandas \<Rightarrow> string \<Rightarrow> bool \<Rightarrow> string list \<Rightarrow> string option \<Rightarrow> world \<Rightarrow>
     (error + unit) \<times> world" where
  "transform pd input drop_null drop_cols filter_dept w0 =
     (let w1 = echo (transforming_msg input) w0
      in case read_csv pd w1 input of
           Inl e \<Rightarrow> (Inl e, w1)
         | Inr df \<Rightarrow>
             (case transform_steps drop_null drop_cols filter_dept df w1 of
                (Inl e, w2) \<Rightarrow> (Inl e, w2)
              | (Inr df', w2) \<Rightarrow>
                  (case to_csv pd df' ''transformed_sql.csv'' w2 of
                     Inl e \<Rightarrow> (Inl e, w2)
                   | Inr w3 \<Rightarrow> (Inr (), echo (saved_msg ''transformed_sql.csv'') w3))))"

text \<open>The lines a command printed: what \<open>stdout\<close> gained between two worlds.\<close>

definition emitted :: "world \<Rightarrow> world \<Rightarrow> string list" where
  "emitted w w' = drop (length (stdout w)) (stdout w')"

subsection \<open>The load command\<close>




subsection \<open>The validate command\<close>

text \<open>\<^verbatim>\<open>df.isnull()\<close>: the frame of flags, one per cell, true where the cell is missing.\<close>

definition isnull :: "'n dataframe \<Rightarrow> bool list list" where
  "isnull df = map (map (\<lambda>c. c = NaN)) (rows df)"

text \<open>\<^verbatim>\<open>.values.any()\<close> on a frame of flags and \<^verbatim>\<open>.any()\<close> on a series of flags.\<close>

definition values_any :: "bool list list \<Rightarrow> bool" where
  "values_any m = list_ex (list_ex (\<lambda>b. b)) m"

definition series_any :: "bool list \<Rightarrow> bool" where
  "series_any s = list_ex (\<lambda>b. b) s"

text \<open>
  \<^verbatim>\<open>df.duplicated()\<close>: one flag per row, true when an equal row stands earlier in the
  frame (pandas keeps the first occurrence unflagged, and takes missing values in the
  same column as equal).
\<close>

fun duplicated_after :: "'a list \<Rightarrow> 'a list \<Rightarrow> bool list" where
  "duplicated_after seen [] = []"
| "duplicated_after seen (r # rs) = (r \<in> set seen) # duplicated_after (r # seen) rs"

definition duplicated :: "'n dataframe \<Rightarrow> bool list" where
  "duplicated df = duplicated_after [] (rows df)"

definition validating_msg :: "string \<Rightarrow> string" where
  "validating_msg input = magnifier_left @ '' Validating '' @ input"

definition null_values_msg :: string where
  "null_values_msg = exclamation @ '' Null values found''"

definition duplicate_rows_msg :: string where
  "duplicate_rows_msg = exclamation @ '' Duplicate rows found''"

definition passed_msg :: string where
  "passed_msg = check_mark @ '' Data passed validation''"

definition validate :: "'n pandas \<Rightarrow> string \<Rightarrow> world \<Rightarrow> (error + unit) \<times> world" where
  "validate pd input w0 =
     (let w1 = echo (validating_msg input) w0
      in case read_csv pd w1 input of
           Inl e \<Rightarrow> (Inl e, w1)
         | Inr df \<Rightarrow>
             (let issues0 = [];
                  issues1 = (if values_any (isnull df) then issues0 @ [null_values_msg]
                             else issues0);
                  issues2 = (if series_any (duplicated df) then issues1 @ [duplicate_rows_msg]
                             else issues1)
              in if issues2 \<noteq> []
                 then (Inr (), foldl (\<lambda>w issue. echo issue w) w1 issues2)
                 else (Inr (), echo passed_msg w1)))"

subsection \<open>The extract command\<close>

text \<open>
  The database is a parameter: whether \<^verbatim>\<open>pyodbc.connect\<close> fails on a connection
  string, and what \<^verbatim>\<open>pd.read_sql\<close> returns for a query.
\<close>

record 'n database =
  pyodbc_connect :: "string \<Rightarrow> error option"
  read_sql :: "string \<Rightarrow> error + 'n dataframe"

text \<open>
  An environment variable inside an f-string: \<^verbatim>\<open>os.getenv\<close> gives \<^verbatim>\<open>None\<close> for a
  variable that is not set, which the f-string prints as the word None.
\<close>

definition getenv_text :: "world \<Rightarrow> string \<Rightarrow> string" where
  "getenv_text w name = (case environ w name of None \<Rightarrow> ''None'' | Some v \<Rightarrow> v)"

definition conn_str :: "world \<Rightarrow> string" where
  "conn_str w =
     ''DRIVER={ODBC Driver 17 for SQL Server};'' @
     ''SERVER='' @ getenv_text w ''SQL_SERVER'' @ '';'' @
     ''DATABASE='' @ getenv_text w ''SQL_DATABASE'' @ '';'' @
     ''UID='' @ getenv_text w ''SQL_USER'' @ '';'' @
     ''PWD='' @ getenv_text w ''SQL_PASSWORD''"

text \<open>Decimal digits of a natural number (\<^verbatim>\<open>str(n)\<close>).\<close>

function show_nat :: "nat \<Rightarrow> string" where
  "show_nat n =
     (if n < 10 then [''0123456789'' ! n]
      else show_nat (n div 10) @ [''0123456789'' ! (n mod 10)])"
  by pat_completeness auto
termination
  by (relation "measure id") auto

definition extracting_msg :: "string \<Rightarrow> string" where
  "extracting_msg table = magnifier_left @ '' Extracting data from SQL table: '' @ table"

definition extracted_msg :: "nat \<Rightarrow> string" where
  "extracted_msg n = check_mark @ '' Extracted '' @ show_nat n @ '' rows''"

text \<open>
  The command (\<^verbatim>\<open>extract\<close> in the source; the name is a keyword of Isabelle, hence
  \<open>extract_table\<close>) opens a connection, runs the query, closes the connection, and writes
  \<^verbatim>\<open>extracted_sql.csv\<close>. The call of \<^verbatim>\<open>conn.close()\<close> stands after the query, outside
  any \<^verbatim>\<open>try\<close> or \<^verbatim>\<open>with\<close>: an exception of the query leaves the function before it.
\<close>

definition extract_table ::
  "'n database \<Rightarrow> 'n pandas \<Rightarrow> string \<Rightarrow> world \<Rightarrow> (error + unit) \<times> world" where
  "extract_table db pd table w0 =
     (let w1 = echo (extracting_msg table) w0
      in case pyodbc_connect db (conn_str w1) of
           Some e \<Rightarrow> (Inl e, w1)
         | None \<Rightarrow>
             (let w2 = w1\<lparr>open_connections := Suc (open_connections w1)\<rparr>;
                  query = ''SELECT * FROM '' @ table
              in case read_sql db query of
                   Inl e \<Rightarrow> (Inl e, w2)
                 | Inr df \<Rightarrow>
                     (let w3 = w2\<lparr>open_connections := open_connections w2 - 1\<rparr>
                      in case to_csv pd df ''extracted_sql.csv'' w3 of
                           Inl e \<Rightarrow> (Inl e, w3)
                         | Inr w4 \<Rightarrow>
                             (Inr (),
                              echo (saved_msg ''extracted_sql.csv'')
                                (echo (extracted_msg (length (rows df))) w4)))))"

subsection \<open>A concrete CSV reader and writer\<close>

text \<open>
  pandas is a library, not part of the repository. For running the commands on concrete
  files, this section models the part of \<^verbatim>\<open>pd.read_csv\<close> and \<^verbatim>\<open>DataFrame.to_csv\<close>
  that plain files need: lines end with a line feed, fields are separated by commas and
  are not quoted, and a field is empty, a decimal integer, or a word. On such files the
  reader does what pandas does:
  \<^item> blank lines are skipped, and a file without any other line raises EmptyDataError;
  \<^item> the first line gives the column labels;
  \<^item> an empty field is a missing value;
  \<^item> a column whose fields are all integers becomes a column of integers;
  \<^item> a column with a word in it keeps every field as the text that stands in the file.
  Everything else (quoted fields, floating-point numbers, which a column of integers with
  a missing value becomes, booleans, the markers of missing values such as NA, repeated or
  empty labels, rows of another length than the header) is answered with \<open>NotModelled\<close>.
  All theorems about the commands hold for every reader and writer; the concrete ones
  serve the examples.
\<close>

definition LF :: char where
  "LF = CHR 0x0A"

definition CR :: char where
  "CR = CHR 0x0D"

definition comma :: char where
  "comma = CHR '',''"

definition dquote :: char where
  "dquote = CHR 0x22"

text \<open>\<^verbatim>\<open>text.split(d)\<close>: the pieces between the separators, at least one.\<close>

fun split_on :: "char \<Rightarrow> string \<Rightarrow> string list" where
  "split_on d [] = [[]]"
| "split_on d (c # cs) =
     (if c = d then [] # split_on d cs
      else (case split_on d cs of p # ps \<Rightarrow> (c # p) # ps | [] \<Rightarrow> [[c]]))"

definition is_digit :: "char \<Rightarrow> bool" where
  "is_digit c = (c \<in> set ''0123456789'')"

definition is_letter :: "char \<Rightarrow> bool" where
  "is_letter c = (c \<in> set ''abcdefghijklmnopqrstuvwxyzABCDEFGHIJKLMNOPQRSTUVWXYZ'')"

definition is_plain :: "char \<Rightarrow> bool" where
  "is_plain c = (is_letter c \<or> is_digit c \<or> c = CHR ''_'')"

definition digit_value :: "char \<Rightarrow> int" where
  "digit_value c = int (index_of c ''0123456789'')"

definition int_of_digits :: "string \<Rightarrow> int" where
  "int_of_digits ds = foldl (\<lambda>a c. 10 * a + digit_value c) 0 ds"

text \<open>
  What a field of a record is. An integer has at most 18 digits (so that it fits 64
  bits) and may have a minus sign. A word starts with a letter and is made of letters,
  digits and underscores; words that start with one of the letters of True, False, inf,
  nan, NA, NULL or None in either case are left out, because pandas reads some of them as
  booleans, numbers or missing values.
\<close>

datatype field_kind = Empty | IntLit | TextLit | Other

definition classify :: "string \<Rightarrow> field_kind" where
  "classify f =
     (if f = [] then Empty
      else if list_all is_digit f \<and> length f \<le> 18 then IntLit
      else if hd f = CHR ''-'' \<and> tl f \<noteq> [] \<and> list_all is_digit (tl f) \<and> length f \<le> 19
      then IntLit
      else if is_letter (hd f) \<and> hd f \<notin> set ''iInNtTfF'' \<and> list_all is_plain f then TextLit
      else Other)"

text \<open>
  The type pandas infers for a column from all its fields: text (object) as soon as one
  field is a word or when there is no integer at all, integers when every field is an
  integer. Integers mixed with empty fields would be floating-point numbers.
\<close>

datatype dtype = Int64 | Object | Unknown

definition infer_dtype :: "string list \<Rightarrow> dtype" where
  "infer_dtype fs =
     (let ks = map classify fs
      in if Other \<in> set ks then Unknown
         else if TextLit \<in> set ks then Object
         else if IntLit \<notin> set ks then Object
         else if Empty \<in> set ks then Unknown
         else Int64)"

definition parse_int :: "string \<Rightarrow> int" where
  "parse_int f = (if hd f = CHR ''-'' then - int_of_digits (tl f) else int_of_digits f)"

definition convert :: "dtype \<Rightarrow> string \<Rightarrow> int cell" where
  "convert t f = (if f = [] then NaN else if t = Int64 then Num (parse_int f) else Str f)"

definition header_ok :: "string list \<Rightarrow> bool" where
  "header_ok names =
     (distinct names \<and> list_all (\<lambda>n. n \<noteq> [] \<and> list_all is_plain n) names)"

definition csv_parse :: "string \<Rightarrow> error + int dataframe" where
  "csv_parse content =
     (case filter (\<lambda>l. l \<noteq> []) (split_on LF content) of
        [] \<Rightarrow> Inl EmptyDataError
      | h # body \<Rightarrow>
          (let names = split_on comma h;
               recs = map (split_on comma) body;
               types = map (\<lambda>j. infer_dtype (map (\<lambda>r. r ! j) recs)) [0..<length names]
           in if \<not> header_ok names \<or> \<not> list_all (\<lambda>r. length r = length names) recs
                 \<or> Unknown \<in> set types
              then Inl NotModelled
              else Inr \<lparr>columns = names, rows = map (\<lambda>r. map2 convert types r) recs\<rparr>))"

text \<open>
  The writer: the labels, then one line per row, fields joined by commas. A missing value
  is written as an empty field and an integer in decimal. A field with a comma, a quote
  or a line break in it is quoted, and so is the empty field of a line that has no other
  field.
\<close>

definition show_int :: "int \<Rightarrow> string" where
  "show_int i = (if i < 0 then CHR ''-'' # show_nat (nat (- i)) else show_nat (nat i))"

definition show_cell :: "int cell \<Rightarrow> string" where
  "show_cell c = (case c of NaN \<Rightarrow> [] | Num i \<Rightarrow> show_int i | Str s \<Rightarrow> s)"

definition quote_field :: "string \<Rightarrow> string" where
  "quote_field f =
     (if list_ex (\<lambda>c. c \<in> set [comma, dquote, LF, CR]) f
      then dquote # concat (map (\<lambda>c. if c = dquote then [dquote, dquote] else [c]) f) @ [dquote]
      else f)"

definition csv_line :: "string list \<Rightarrow> string" where
  "csv_line fs =
     (if fs = [[]] then [dquote, dquote] else join [comma] (map quote_field fs)) @ [LF]"

definition csv_format :: "int dataframe \<Rightarrow> string" where
  "csv_format df = concat (map csv_line (columns df # map (map show_cell) (rows df)))"

definition pandas_csv :: "int pandas" where
  "pandas_csv = \<lparr>parse_csv = csv_parse, format_csv = csv_format\<rparr>"

text \<open>
  A world for the examples: the given files on a writable disk, nothing printed, an empty
  environment, no connection open.
\<close>

definition disk :: "(string \<times> string) list \<Rightarrow> world" where
  "disk fs = \<lparr>files = map_of fs, write_protected = {}, stdout = [], environ = Map.empty,
              open_connections = 0\<rparr>"

text \<open>
  A database for the examples: every connection succeeds, the table \<^verbatim>\<open>staff\<close> has two
  rows, and any other query is rejected by the server.
\<close>

definition staff_db :: "int database" where
  "staff_db =
     \<lparr>pyodbc_connect = (\<lambda>s. None),
      read_sql = (\<lambda>q. if q = ''SELECT * FROM staff''
                        then Inr \<lparr>columns = [''id'', ''department''],
                                  rows = [[Num 1, Str ''Eng''], [Num 2, Str ''Ops'']]\<rparr>
                        else Inl DatabaseError)\<rparr>"

section \<open>Properties\<close>

subsection \<open>Auxiliary facts\<close>

lemma compress_map_filter: "compress (map P xs) xs = filter P xs"
  by (induction xs) auto

lemma columns_drop_columns:
  "columns (drop_columns names df) = filter (\<lambda>c. c \<notin> set names) (columns df)"
  by (simp add: drop_columns_def compress_map_filter)

lemma rows_drop_columns:
  "rows (drop_columns names df) = map (compress (map (\<lambda>c. c \<notin> set names) (columns df))) (rows df)"
  by (simp add: drop_columns_def Let_def)

lemma columns_dropna: "columns (dropna df) = columns df"
  by (simp add: dropna_def)

lemma rows_dropna: "rows (dropna df) = filter (\<lambda>r. NaN \<notin> set r) (rows df)"
  by (simp add: dropna_def)

lemma transform_loaded:
  assumes "files w input = Some content" and "parse_csv pd content = Inr df"
  shows "transform pd input drop_null drop_cols filter_dept w =
    (case transform_steps drop_null drop_cols filter_dept df (echo (transforming_msg input) w) of
       (Inl e, w2) \<Rightarrow> (Inl e, w2)
     | (Inr df', w2) \<Rightarrow>
         (case to_csv pd df' ''transformed_sql.csv'' w2 of
            Inl e \<Rightarrow> (Inl e, w2)
          | Inr w3 \<Rightarrow> (Inr (), echo (saved_msg ''transformed_sql.csv'') w3)))"
  using assms by (simp add: transform_def read_csv_def echo_def)

lemma steps_files: "files (snd (transform_steps drop_null drop_cols filter_dept df w)) = files w"
  by (simp add: transform_steps_def echo_def getitem_def split: option.splits)

lemma steps_write_protected:
  "write_protected (snd (transform_steps drop_null drop_cols filter_dept df w)) = write_protected w"
  by (simp add: transform_steps_def echo_def getitem_def split: option.splits)

lemma steps_inactive:
  assumes "filter_dept = None \<or> filter_dept = Some []"
  shows "transform_steps drop_null drop_cols filter_dept df w =
    (Inr (let d1 = (if drop_cols \<noteq> [] then drop_columns drop_cols df else df)
          in if drop_null then dropna d1 else d1),
     let w1 = (if drop_cols \<noteq> [] then echo (dropped_columns_msg drop_cols) w else w)
     in if drop_null then echo dropped_nulls_msg w1 else w1)"
  using assms by (auto simp add: transform_steps_def)

lemma steps_key_error:
  assumes "filter_dept = Some v" and "v \<noteq> []"
    and "''department'' \<notin> set (columns df) \<or> ''department'' \<in> set drop_cols"
  shows "transform_steps drop_null drop_cols filter_dept df w =
    (Inl (KeyError ''department''),
     let w1 = (if drop_cols \<noteq> [] then echo (dropped_columns_msg drop_cols) w else w)
     in if drop_null then echo dropped_nulls_msg w1 else w1)"
  using assms by (auto simp add: transform_steps_def getitem_def columns_drop_columns columns_dropna)

lemma steps_filter:
  assumes "filter_dept = Some v" and "v \<noteq> []"
    and "''department'' \<in> set (columns df)" and "''department'' \<notin> set drop_cols"
  shows "transform_steps drop_null drop_cols filter_dept df w =
    (Inr (let d1 = (if drop_cols \<noteq> [] then drop_columns drop_cols df else df);
              d2 = (if drop_null then dropna d1 else d1)
          in d2\<lparr>rows := filter (\<lambda>r. r ! index_of ''department'' (columns d2) = Str v) (rows d2)\<rparr>),
     let w1 = (if drop_cols \<noteq> [] then echo (dropped_columns_msg drop_cols) w else w);
         w2 = (if drop_null then echo dropped_nulls_msg w1 else w1)
     in echo (filtered_msg v) w2)"
  using assms
  by (auto simp add: transform_steps_def getitem_def columns_drop_columns columns_dropna
      boolean_index_def series_eq_def compress_map_filter Let_def o_def)

lemma stdout_echo: "stdout (echo m w) = stdout w @ [m]"
  by (simp add: echo_def)

lemma files_echo: "files (echo m w) = files w"
  by (simp add: echo_def)

lemma write_protected_echo: "write_protected (echo m w) = write_protected w"
  by (simp add: echo_def)

lemma emitted_append: "stdout w' = stdout w @ ms \<Longrightarrow> emitted w w' = ms"
  by (simp add: emitted_def)

lemma wrench_not_filtered: "\<not> prefix filtered_prefix (transforming_msg input)"
  by (simp add: filtered_prefix_def transforming_msg_def wrench_def magnifier_right_def)

lemma broom_not_filtered1: "\<not> prefix filtered_prefix (dropped_columns_msg cs)"
  by (simp add: filtered_prefix_def dropped_columns_msg_def dropped_columns_prefix_def broom_def magnifier_right_def)

lemma broom_not_filtered2: "\<not> prefix filtered_prefix dropped_nulls_msg"
  by (simp add: filtered_prefix_def dropped_nulls_msg_def broom_def magnifier_right_def)

lemma folder_not_filtered: "\<not> prefix filtered_prefix (saved_msg p)"
  by (simp add: filtered_prefix_def saved_msg_def folder_def magnifier_right_def)

subsection \<open>The empty department\<close>

text \<open>
  Claim C9. Running transform with the department option set to the empty string is the
  same as running it without the option, in outcome, files and printed lines: the frame
  that is written is the one left by the column drop and the null drop (no row is
  filtered out), no KeyError for the department column is raised once the input is
  loaded, whether the column exists or not, and no line about a department filter is
  printed.
\<close>

theorem transform_empty_department_as_absent:
  "transform pd input drop_null drop_cols (Some '''') w =
     transform pd input drop_null drop_cols None w
   \<and> fst (transform_steps drop_null drop_cols (Some '''') df w) =
       Inr (let d1 = (if drop_cols \<noteq> [] then drop_columns drop_cols df else df)
            in if drop_null then dropna d1 else d1)
   \<and> (files w input = Some content \<and> parse_csv pd content = Inr df \<longrightarrow>
        fst (transform pd input drop_null drop_cols (Some '''') w) \<noteq> Inl (KeyError ''department''))
   \<and> \<not> list_ex (prefix filtered_prefix)
         (emitted w (snd (transform pd input drop_null drop_cols (Some '''') w)))"
proof -
  let ?t = "transform pd input drop_null drop_cols (Some '''') w"
  have same: "transform_steps drop_null drop_cols (Some '''') d v =
      transform_steps drop_null drop_cols None d v" for d :: "'a dataframe" and v
    by (simp add: steps_inactive)
  have a: "?t = transform pd input drop_null drop_cols None w"
    by (simp add: transform_def same cong: sum.case_cong)
  have b: "fst (transform_steps drop_null drop_cols (Some '''') df w) =
       Inr (let d1 = (if drop_cols \<noteq> [] then drop_columns drop_cols df else df)
            in if drop_null then dropna d1 else d1)"
    by (simp add: steps_inactive)
  have c: "fst ?t \<noteq> Inl (KeyError ''department'')"
    if "files w input = Some content" and "parse_csv pd content = Inr df"
    using that
    by (auto simp add: transform_loaded steps_inactive to_csv_def Let_def split: sum.splits)
  have d: "\<not> list_ex (prefix filtered_prefix) (emitted w (snd ?t))"
    by (auto simp add: transform_def steps_inactive read_csv_def to_csv_def Let_def
        emitted_def stdout_echo list_ex_iff wrench_not_filtered broom_not_filtered1
        broom_not_filtered2 folder_not_filtered
        split: option.splits sum.splits)
  from a b c d show ?thesis by blast
qed

theorem transform_empty_department_as_absent_witness:
  "transform pandas_csv ''extracted_sql.csv'' True [''ghost''] (Some '''')
       (disk [(''extracted_sql.csv'', ''id\<newline>1\<newline>'')]) =
     transform pandas_csv ''extracted_sql.csv'' True [''ghost''] None
       (disk [(''extracted_sql.csv'', ''id\<newline>1\<newline>'')])
   \<and> fst (transform_steps True [''ghost''] (Some '''') \<lparr>columns = [''id''], rows = [[Num (1::int)]]\<rparr>
         (disk [(''extracted_sql.csv'', ''id\<newline>1\<newline>'')])) =
       Inr \<lparr>columns = [''id''], rows = [[Num 1]]\<rparr>
   \<and> fst (transform pandas_csv ''extracted_sql.csv'' True [''ghost''] (Some '''')
         (disk [(''extracted_sql.csv'', ''id\<newline>1\<newline>'')])) \<noteq> Inl (KeyError ''department'')
   \<and> \<not> list_ex (prefix filtered_prefix)
         (emitted (disk [(''extracted_sql.csv'', ''id\<newline>1\<newline>'')])
            (snd (transform pandas_csv ''extracted_sql.csv'' True [''ghost''] (Some '''')
               (disk [(''extracted_sql.csv'', ''id\<newline>1\<newline>'')]))))"
proof -
  let ?w = "disk [(''extracted_sql.csv'', ''id\<newline>1\<newline>'')]"
  let ?df = "\<lparr>columns = [''id''], rows = [[Num (1::int)]]\<rparr>"
  have h1: "files ?w ''extracted_sql.csv'' = Some ''id\<newline>1\<newline>''"
    by (simp add: disk_def)
  have h2: "parse_csv pandas_csv ''id\<newline>1\<newline>'' = Inr ?df"
    by code_simp
  have e: "(let d1 = (if [''ghost''] \<noteq> [] then drop_columns [''ghost''] ?df else ?df)
            in if True then dropna d1 else d1) = ?df"
    by code_simp
  note t = transform_empty_department_as_absent
      [where pd = pandas_csv and input = "''extracted_sql.csv''" and drop_null = True
         and drop_cols = "[''ghost'']" and w = ?w and df = ?df and content = "''id\<newline>1\<newline>''"]
  from t[unfolded e] h1 h2 show ?thesis
    by blast
qed

subsection \<open>More auxiliary facts about transform\<close>

lemma steps_columns:
  assumes "fst (transform_steps drop_null drop_cols filter_dept df w) = Inr out"
  shows "columns out = filter (\<lambda>c. c \<notin> set drop_cols) (columns df)"
proof (cases "\<exists>v. filter_dept = Some v \<and> v \<noteq> []")
  case False
  then have "filter_dept = None \<or> filter_dept = Some []"
    by (cases filter_dept) auto
  with assms show ?thesis
    by (auto simp add: steps_inactive Let_def columns_drop_columns columns_dropna split: if_splits)
next
  case True
  then obtain v where v: "filter_dept = Some v" "v \<noteq> []"
    by blast
  show ?thesis
  proof (cases "''department'' \<in> set (columns df) \<and> ''department'' \<notin> set drop_cols")
    case True
    with assms v show ?thesis
      by (auto simp add: steps_filter Let_def columns_drop_columns columns_dropna split: if_splits)
  next
    case False
    with assms v show ?thesis
      by (simp add: steps_key_error)
  qed
qed

lemma steps_result:
  assumes "fst (transform_steps drop_null drop_cols filter_dept df w) = Inr out"
  shows "out =
     (let d1 = (if drop_cols \<noteq> [] then drop_columns drop_cols df else df);
          d2 = (if drop_null then dropna d1 else d1)
      in case filter_dept of
           None \<Rightarrow> d2
         | Some v \<Rightarrow>
             if v = [] then d2
             else d2\<lparr>rows := filter (\<lambda>r. r ! index_of ''department'' (columns d2) = Str v) (rows d2)\<rparr>)"
proof (cases "\<exists>v. filter_dept = Some v \<and> v \<noteq> []")
  case False
  then have "filter_dept = None \<or> filter_dept = Some []"
    by (cases filter_dept) auto
  with assms show ?thesis
    by (auto simp add: steps_inactive Let_def)
next
  case True
  then obtain v where v: "filter_dept = Some v" "v \<noteq> []"
    by blast
  show ?thesis
  proof (cases "''department'' \<in> set (columns df) \<and> ''department'' \<notin> set drop_cols")
    case True
    with assms v show ?thesis
      by (auto simp add: steps_filter Let_def)
  next
    case False
    with assms v show ?thesis
      by (simp add: steps_key_error)
  qed
qed

lemma transform_success:
  assumes "files w input = Some content" and "parse_csv pd content = Inr df"
    and "fst (transform pd input drop_null drop_cols filter_dept w) = Inr ()"
  shows "\<exists>out. fst (transform_steps drop_null drop_cols filter_dept df
                      (echo (transforming_msg input) w)) = Inr out
           \<and> files (snd (transform pd input drop_null drop_cols filter_dept w))
                 ''transformed_sql.csv'' = Some (format_csv pd out)"
  using assms(3) unfolding transform_loaded[OF assms(1,2)]
  by (auto simp add: to_csv_def files_echo split: prod.splits sum.splits if_splits)

lemma compress_positions:
  assumes "distinct cols" and "length r = length cols"
  shows "compress (map P cols) r = map (\<lambda>c. r ! index_of c cols) (filter P cols)"
  using assms
proof (induction cols arbitrary: r)
  case Nil
  then show ?case by simp
next
  case (Cons x xs)
  then obtain y ys where r: "r = y # ys" and len: "length ys = length xs"
    by (cases r) auto
  from Cons.prems have d: "distinct xs" and nx: "x \<notin> set xs"
    by auto
  have ih: "compress (map P xs) ys = map (\<lambda>c. ys ! index_of c xs) (filter P xs)"
    by (rule Cons.IH[OF d len])
  have shift: "map (\<lambda>c. (y # ys) ! index_of c (x # xs)) (filter P xs) =
      map (\<lambda>c. ys ! index_of c xs) (filter P xs)"
    using nx by (intro map_cong refl) auto
  show ?case
    using nx by (simp add: r ih shift)
qed

lemma compress_all:
  assumes "length r = length cols"
  shows "compress (map (\<lambda>c. True) cols) r = r"
  using assms by (induction cols arbitrary: r) (auto simp add: length_Suc_conv)

text \<open>
  The rows that the steps keep are selected from the rows after the column drop, and on a
  well-formed frame the column drop leaves in each row the cells of the remaining labels.
  Together: the rows of the result are the input's rows, each cut down to the remaining
  labels, that pass the null test and the department test.
\<close>

lemma steps_rows_filtered:
  assumes "fst (transform_steps drop_null drop_cols filter_dept df w) = Inr out"
  shows "\<exists>Q. rows out = filter Q (rows (if drop_cols \<noteq> [] then drop_columns drop_cols df else df))"
proof -
  define d1 where "d1 = (if drop_cols \<noteq> [] then drop_columns drop_cols df else df)"
  define d2 where "d2 = (if drop_null then dropna d1 else d1)"
  have r2: "rows d2 = filter (\<lambda>r. drop_null \<longrightarrow> NaN \<notin> set r) (rows d1)"
    by (simp add: d2_def rows_dropna)
  have o: "out = (case filter_dept of
           None \<Rightarrow> d2
         | Some v \<Rightarrow>
             if v = [] then d2
             else d2\<lparr>rows := filter (\<lambda>r. r ! index_of ''department'' (columns d2) = Str v) (rows d2)\<rparr>)"
    using steps_result[OF assms] unfolding d1_def d2_def Let_def .
  show ?thesis
  proof (cases "\<exists>v. filter_dept = Some v \<and> v \<noteq> []")
    case False
    then have "out = d2"
      using o by (cases filter_dept) auto
    then have "rows out = filter (\<lambda>r. drop_null \<longrightarrow> NaN \<notin> set r) (rows d1)"
      by (simp only: r2)
    then show ?thesis
      unfolding d1_def by (rule exI[where x = "\<lambda>r. drop_null \<longrightarrow> NaN \<notin> set r"])
  next
    case True
    then obtain v where v: "filter_dept = Some v" "v \<noteq> []"
      by blast
    have "rows out = filter (\<lambda>r. r ! index_of ''department'' (columns d2) = Str v) (rows d2)"
      using o v by simp
    then have "rows out = filter (\<lambda>r. (drop_null \<longrightarrow> NaN \<notin> set r)
                 \<and> r ! index_of ''department'' (columns d2) = Str v) (rows d1)"
      by (simp only: r2 filter_filter)
    then show ?thesis
      unfolding d1_def
      by (rule exI[where x = "\<lambda>r. (drop_null \<longrightarrow> NaN \<notin> set r)
                 \<and> r ! index_of ''department'' (columns d2) = Str v"])
  qed
qed

lemma drop_step_rows:
  assumes "wf_dataframe df"
  shows "rows (if drop_cols \<noteq> [] then drop_columns drop_cols df else df) =
    map (\<lambda>r. map (\<lambda>c. r ! index_of c (columns df))
                 (filter (\<lambda>c. c \<notin> set drop_cols) (columns df))) (rows df)"
proof -
  from assms have d: "distinct (columns df)"
    and len: "\<And>r. r \<in> set (rows df) \<Longrightarrow> length r = length (columns df)"
    by (auto simp add: wf_dataframe_def list_all_iff)
  have pos: "compress (map (\<lambda>c. c \<notin> set drop_cols) (columns df)) r =
      map (\<lambda>c. r ! index_of c (columns df)) (filter (\<lambda>c. c \<notin> set drop_cols) (columns df))"
    if "r \<in> set (rows df)" for r
    by (rule compress_positions[OF d len[OF that]])
  show ?thesis
  proof (cases "drop_cols = []")
    case True
    have "map (\<lambda>c. r ! index_of c (columns df)) (columns df) = r" if "r \<in> set (rows df)" for r
      using pos[OF that] compress_all[OF len[OF that]] True by simp
    then have "map (\<lambda>r. map (\<lambda>c. r ! index_of c (columns df)) (columns df)) (rows df) = rows df"
      by (rule map_idI)
    with True show ?thesis
      by simp
  next
    case False
    have "map (compress (map (\<lambda>c. c \<notin> set drop_cols) (columns df))) (rows df) =
      map (\<lambda>r. map (\<lambda>c. r ! index_of c (columns df))
                 (filter (\<lambda>c. c \<notin> set drop_cols) (columns df))) (rows df)"
      by (rule map_cong[OF refl pos])
    with False show ?thesis
      by (simp add: rows_drop_columns)
  qed
qed

lemma steps_rows_exact:
  assumes "fst (transform_steps drop_null drop_cols filter_dept df w) = Inr out"
    and "wf_dataframe df"
  shows "rows out =
     filter (\<lambda>r'. (drop_null \<longrightarrow> NaN \<notin> set r')
                 \<and> (\<forall>v. filter_dept = Some v \<and> v \<noteq> [] \<longrightarrow>
                        r' ! index_of ''department'' (columns out) = Str v))
       (map (\<lambda>r. map (\<lambda>c. r ! index_of c (columns df)) (columns out)) (rows df))"
proof -
  define d1 where "d1 = (if drop_cols \<noteq> [] then drop_columns drop_cols df else df)"
  define d2 where "d2 = (if drop_null then dropna d1 else d1)"
  have cols: "columns out = filter (\<lambda>c. c \<notin> set drop_cols) (columns df)"
    by (rule steps_columns[OF assms(1)])
  have c1: "columns d1 = columns out"
    by (simp add: d1_def cols columns_drop_columns)
  have c2: "columns d2 = columns out"
    by (simp add: d2_def c1 columns_dropna)
  have r1: "rows d1 = map (\<lambda>r. map (\<lambda>c. r ! index_of c (columns df)) (columns out)) (rows df)"
    unfolding d1_def cols by (rule drop_step_rows[OF assms(2)])
  have r2: "rows d2 = filter (\<lambda>r. drop_null \<longrightarrow> NaN \<notin> set r) (rows d1)"
    by (simp add: d2_def rows_dropna)
  have o: "out = (case filter_dept of
           None \<Rightarrow> d2
         | Some v \<Rightarrow>
             if v = [] then d2
             else d2\<lparr>rows := filter (\<lambda>r. r ! index_of ''department'' (columns d2) = Str v) (rows d2)\<rparr>)"
    using steps_result[OF assms(1)] unfolding d1_def d2_def Let_def .
  have "rows out = filter (\<lambda>r'. \<forall>v. filter_dept = Some v \<and> v \<noteq> [] \<longrightarrow>
                        r' ! index_of ''department'' (columns out) = Str v) (rows d2)"
  proof (cases filter_dept)
    case None
    with o show ?thesis by simp
  next
    case (Some v)
    show ?thesis
    proof (cases "v = []")
      case True
      with o Some show ?thesis by simp
    next
      case False
      with o Some have "rows out =
          filter (\<lambda>r. r ! index_of ''department'' (columns d2) = Str v) (rows d2)"
        by simp
      then have "rows out =
          filter (\<lambda>r. r ! index_of ''department'' (columns out) = Str v) (rows d2)"
        by (simp only: c2)
      with Some False show ?thesis by simp
    qed
  qed
  then show ?thesis
    unfolding r2 r1[symmetric] by (simp only: filter_filter)
qed

subsection \<open>The department filter on a frame without the column\<close>

text \<open>
  Claim C3, as amended. When the input was loaded, has no column \<^verbatim>\<open>department\<close>, and
  the department option is a text that is not empty, transform ends with
  \<^verbatim>\<open>KeyError('department')\<close>, and no file on disk has changed: the error is raised before
  \<^verbatim>\<open>transformed_sql.csv\<close> is written.
\<close>

theorem transform_missing_department_column:
  assumes "files w input = Some content" and "parse_csv pd content = Inr df"
    and "''department'' \<notin> set (columns df)"
    and "filter_dept = Some v" and "v \<noteq> []"
  shows "fst (transform pd input drop_null drop_cols filter_dept w) = Inl (KeyError ''department'')
       \<and> files (snd (transform pd input drop_null drop_cols filter_dept w)) = files w"
  using assms(3-5)
  by (simp add: transform_loaded[OF assms(1,2)] steps_key_error Let_def files_echo)

theorem transform_missing_department_column_witness:
  "fst (transform pandas_csv ''extracted_sql.csv'' True [''ghost''] (Some ''Eng'')
          (disk [(''extracted_sql.csv'', ''id,salary\<newline>1,100\<newline>''),
                 (''transformed_sql.csv'', ''old\<newline>'')]))
     = Inl (KeyError ''department'')
   \<and> files (snd (transform pandas_csv ''extracted_sql.csv'' True [''ghost''] (Some ''Eng'')
          (disk [(''extracted_sql.csv'', ''id,salary\<newline>1,100\<newline>''),
                 (''transformed_sql.csv'', ''old\<newline>'')])))
     = files (disk [(''extracted_sql.csv'', ''id,salary\<newline>1,100\<newline>''),
                    (''transformed_sql.csv'', ''old\<newline>'')])
   \<and> files (snd (transform pandas_csv ''extracted_sql.csv'' True [''ghost''] (Some ''Eng'')
          (disk [(''extracted_sql.csv'', ''id,salary\<newline>1,100\<newline>''),
                 (''transformed_sql.csv'', ''old\<newline>'')]))) ''transformed_sql.csv''
     = Some ''old\<newline>''"
proof -
  let ?w = "disk [(''extracted_sql.csv'', ''id,salary\<newline>1,100\<newline>''),
                  (''transformed_sql.csv'', ''old\<newline>'')]"
  let ?df = "\<lparr>columns = [''id'', ''salary''], rows = [[Num (1::int), Num 100]]\<rparr>"
  have h1: "files ?w ''extracted_sql.csv'' = Some ''id,salary\<newline>1,100\<newline>''"
    by (simp add: disk_def)
  have h2: "parse_csv pandas_csv ''id,salary\<newline>1,100\<newline>'' = Inr ?df"
    by code_simp
  have h3: "''department'' \<notin> set (columns ?df)"
    by simp
  have h5: "''Eng'' \<noteq> []"
    by simp
  have slot: "files ?w ''transformed_sql.csv'' = Some ''old\<newline>''"
    by (simp add: disk_def)
  from transform_missing_department_column[OF h1 h2 h3 refl h5, of True "[''ghost'']"] slot
  show ?thesis
    by simp
qed

text \<open>
  The claim as stated, for every department filter, fails for the empty text: the guard
  \<^verbatim>\<open>if filter_dept:\<close> skips the filter, the command succeeds on a frame without the
  column, and the output file, which did not exist, is written.
\<close>

theorem transform_missing_department_counterexample:
  "parse_csv pandas_csv ''id\<newline>1\<newline>'' = Inr \<lparr>columns = [''id''], rows = [[Num 1]]\<rparr>
   \<and> files (disk [(''extracted_sql.csv'', ''id\<newline>1\<newline>'')]) ''transformed_sql.csv'' = None
   \<and> fst (transform pandas_csv ''extracted_sql.csv'' False [] (Some '''')
          (disk [(''extracted_sql.csv'', ''id\<newline>1\<newline>'')])) = Inr ()
   \<and> files (snd (transform pandas_csv ''extracted_sql.csv'' False [] (Some '''')
          (disk [(''extracted_sql.csv'', ''id\<newline>1\<newline>'')]))) ''transformed_sql.csv''
       = Some ''id\<newline>1\<newline>''"
  by code_simp

subsection \<open>The columns of the output\<close>

text \<open>
  Claim C4. When transform succeeds on a loaded input, the frame it writes has the labels
  of the input that are not among the names to drop, in the input's order: its set of
  labels is a subset of the input's, and equals the input's set minus the dropped names
  that were labels of the input.
\<close>

theorem transform_output_columns:
  assumes "files w input = Some content" and "parse_csv pd content = Inr df"
    and "fst (transform pd input drop_null drop_cols filter_dept w) = Inr ()"
  shows "\<exists>out. fst (transform_steps drop_null drop_cols filter_dept df
                      (echo (transforming_msg input) w)) = Inr out
           \<and> files (snd (transform pd input drop_null drop_cols filter_dept w))
                 ''transformed_sql.csv'' = Some (format_csv pd out)
           \<and> set (columns out) \<subseteq> set (columns df)
           \<and> set (columns out) = set (columns df) - {c \<in> set drop_cols. c \<in> set (columns df)}
           \<and> columns out = filter (\<lambda>c. c \<notin> set drop_cols) (columns df)"
proof -
  from transform_success[OF assms] obtain out where
    out: "fst (transform_steps drop_null drop_cols filter_dept df
                      (echo (transforming_msg input) w)) = Inr out"
      "files (snd (transform pd input drop_null drop_cols filter_dept w))
                 ''transformed_sql.csv'' = Some (format_csv pd out)"
    by blast
  have cols: "columns out = filter (\<lambda>c. c \<notin> set drop_cols) (columns df)"
    by (rule steps_columns[OF out(1)])
  have "set (columns out) \<subseteq> set (columns df)"
    by (auto simp add: cols)
  moreover have "set (columns out) = set (columns df) - {c \<in> set drop_cols. c \<in> set (columns df)}"
    by (auto simp add: cols)
  ultimately show ?thesis
    using out cols by blast
qed

theorem transform_output_columns_witness:
  "\<exists>out. fst (transform_steps False [''salary'', ''ghost''] None
                 \<lparr>columns = [''id'', ''department'', ''salary''],
                    rows = [[Num (1::int), Str ''Eng'', Num 100], [Num 2, Str ''Ops'', Num 200]]\<rparr>
                 (echo (transforming_msg ''extracted_sql.csv'')
                    (disk [(''extracted_sql.csv'',
                       ''id,department,salary\<newline>1,Eng,100\<newline>2,Ops,200\<newline>'')]))) = Inr out
     \<and> files (snd (transform pandas_csv ''extracted_sql.csv'' False [''salary'', ''ghost''] None
                 (disk [(''extracted_sql.csv'',
                       ''id,department,salary\<newline>1,Eng,100\<newline>2,Ops,200\<newline>'')])))
           ''transformed_sql.csv'' = Some (format_csv pandas_csv out)
     \<and> set (columns out) \<subseteq> {''id'', ''department'', ''salary''}
     \<and> set (columns out) = {''id'', ''department''}
     \<and> columns out = [''id'', ''department'']"
proof -
  let ?c = "''id,department,salary\<newline>1,Eng,100\<newline>2,Ops,200\<newline>''"
  let ?w = "disk [(''extracted_sql.csv'', ?c)]"
  let ?df = "\<lparr>columns = [''id'', ''department'', ''salary''],
                    rows = [[Num (1::int), Str ''Eng'', Num 100], [Num 2, Str ''Ops'', Num 200]]\<rparr>"
  have h1: "files ?w ''extracted_sql.csv'' = Some ?c"
    by (simp add: disk_def)
  have h2: "parse_csv pandas_csv ?c = Inr ?df"
    by code_simp
  have h3: "fst (transform pandas_csv ''extracted_sql.csv'' False [''salary'', ''ghost''] None ?w) = Inr ()"
    by code_simp
  from transform_output_columns[OF h1 h2 h3] obtain out where
    o: "fst (transform_steps False [''salary'', ''ghost''] None ?df
                 (echo (transforming_msg ''extracted_sql.csv'') ?w)) = Inr out"
      "files (snd (transform pandas_csv ''extracted_sql.csv'' False [''salary'', ''ghost''] None ?w))
           ''transformed_sql.csv'' = Some (format_csv pandas_csv out)"
      "columns out = filter (\<lambda>c. c \<notin> set [''salary'', ''ghost'']) (columns ?df)"
    by blast
  from o(3) have "columns out = [''id'', ''department'']"
    by simp
  with o(1,2) show ?thesis
    by auto
qed

text \<open>
  What a run of transform on a loaded input ends with: the KeyError of the department
  filter, the error of writing the output file, or success. No other error is possible.
\<close>

lemma transform_outcome:
  assumes "files w input = Some content" and "parse_csv pd content = Inr df"
  shows "fst (transform pd input drop_null drop_cols filter_dept w) =
     (if (\<exists>v. filter_dept = Some v \<and> v \<noteq> [])
         \<and> (''department'' \<notin> set (columns df) \<or> ''department'' \<in> set drop_cols)
      then Inl (KeyError ''department'')
      else if ''transformed_sql.csv'' \<in> write_protected w
      then Inl (PermissionError ''transformed_sql.csv'')
      else Inr ())"
proof -
  let ?w1 = "echo (transforming_msg input) w"
  let ?s = "transform_steps drop_null drop_cols filter_dept df ?w1"
  have wp: "write_protected (snd ?s) = write_protected w"
    by (simp add: steps_write_protected write_protected_echo)
  show ?thesis
  proof (cases "\<exists>v. filter_dept = Some v \<and> v \<noteq> []")
    case False
    then have i: "filter_dept = None \<or> filter_dept = Some []"
      by (cases filter_dept) auto
    obtain out w2 where s: "?s = (Inr out, w2)"
      by (simp add: steps_inactive[OF i])
    from wp s have "write_protected w2 = write_protected w"
      by simp
    with False show ?thesis
      unfolding transform_loaded[OF assms] s by (simp add: to_csv_def)
  next
    case True
    then obtain v where v: "filter_dept = Some v" "v \<noteq> []"
      by blast
    show ?thesis
    proof (cases "''department'' \<in> set (columns df) \<and> ''department'' \<notin> set drop_cols")
      case False
      then have m: "''department'' \<notin> set (columns df) \<or> ''department'' \<in> set drop_cols"
        by blast
      obtain w2 where s: "?s = (Inl (KeyError ''department''), w2)"
        by (simp add: steps_key_error[OF v m])
      from True m show ?thesis
        unfolding transform_loaded[OF assms] s by simp
    next
      case present: True
      obtain out w2 where s: "?s = (Inr out, w2)"
        using present by (simp add: steps_filter[OF v])
      from wp s have "write_protected w2 = write_protected w"
        by simp
      with present show ?thesis
        unfolding transform_loaded[OF assms] s by (simp add: to_csv_def)
    qed
  qed
qed

text \<open>
  Claim C5. Given names to drop (at least one) and a loaded input, transform raises
  nothing for the names, whether they label a column or not: the run can only end in
  success, in the KeyError of the department filter, or in the error of writing the
  output file. When the department filter is inactive or finds its column and the output
  file can be written, the run succeeds, and the frame it writes has lost the named
  columns that existed: its labels are the input's labels without the named ones, and
  (on a well-formed input) its rows are the input's rows with only the cells under the
  remaining labels, as far as the null drop and the department filter keep them.
\<close>

theorem transform_drop_cols_ignores_missing:
  assumes "files w input = Some content" and "parse_csv pd content = Inr df"
    and "drop_cols \<noteq> []"
  shows "(fst (transform pd input drop_null drop_cols filter_dept w) = Inr ()
          \<or> fst (transform pd input drop_null drop_cols filter_dept w) = Inl (KeyError ''department'')
          \<or> fst (transform pd input drop_null drop_cols filter_dept w)
               = Inl (PermissionError ''transformed_sql.csv''))
       \<and> ((filter_dept = None \<or> filter_dept = Some []
             \<or> (''department'' \<in> set (columns df) \<and> ''department'' \<notin> set drop_cols))
            \<and> ''transformed_sql.csv'' \<notin> write_protected w \<longrightarrow>
           fst (transform pd input drop_null drop_cols filter_dept w) = Inr ()
           \<and> (\<exists>out. fst (transform_steps drop_null drop_cols filter_dept df
                          (echo (transforming_msg input) w)) = Inr out
               \<and> files (snd (transform pd input drop_null drop_cols filter_dept w))
                     ''transformed_sql.csv'' = Some (format_csv pd out)
               \<and> columns out = filter (\<lambda>c. c \<notin> set drop_cols) (columns df)
               \<and> (wf_dataframe df \<longrightarrow>
                    rows out =
                      filter (\<lambda>r'. (drop_null \<longrightarrow> NaN \<notin> set r')
                                  \<and> (\<forall>v. filter_dept = Some v \<and> v \<noteq> [] \<longrightarrow>
                                         r' ! index_of ''department'' (columns out) = Str v))
                        (map (\<lambda>r. map (\<lambda>c. r ! index_of c (columns df)) (columns out))
                           (rows df)))))"
    (is "?A \<and> (?F \<and> ?W \<longrightarrow> ?B)")
proof (rule conjI)
  note oc = transform_outcome[OF assms(1,2), of drop_null drop_cols filter_dept]
  show ?A
    unfolding oc by simp
  show "?F \<and> ?W \<longrightarrow> ?B"
  proof (rule impI, elim conjE)
    assume f: ?F and wr: ?W
    have ok: "fst (transform pd input drop_null drop_cols filter_dept w) = Inr ()"
      unfolding oc using f wr by auto
    from transform_success[OF assms(1,2) ok] obtain out where
      o: "fst (transform_steps drop_null drop_cols filter_dept df
                (echo (transforming_msg input) w)) = Inr out"
         "files (snd (transform pd input drop_null drop_cols filter_dept w))
                     ''transformed_sql.csv'' = Some (format_csv pd out)"
      by blast
    have r: "wf_dataframe df \<longrightarrow>
                    rows out =
                      filter (\<lambda>r'. (drop_null \<longrightarrow> NaN \<notin> set r')
                                  \<and> (\<forall>v. filter_dept = Some v \<and> v \<noteq> [] \<longrightarrow>
                                         r' ! index_of ''department'' (columns out) = Str v))
                        (map (\<lambda>r. map (\<lambda>c. r ! index_of c (columns df)) (columns out))
                           (rows df))"
      using steps_rows_exact[OF o(1)] by (rule impI)
    from ok o(1) o(2) steps_columns[OF o(1)] r show ?B
      by (intro conjI exI)
  qed
qed

theorem transform_drop_cols_ignores_missing_witness:
  "fst (transform pandas_csv ''extracted_sql.csv'' False [''salary'', ''ghost''] None
          (disk [(''extracted_sql.csv'',
                  ''id,department,salary\<newline>1,Eng,100\<newline>2,Ops,200\<newline>'')])) = Inr ()
   \<and> (\<exists>out. fst (transform_steps False [''salary'', ''ghost''] None
                 \<lparr>columns = [''id'', ''department'', ''salary''],
                    rows = [[Num (1::int), Str ''Eng'', Num 100], [Num 2, Str ''Ops'', Num 200]]\<rparr>
                 (echo (transforming_msg ''extracted_sql.csv'')
                    (disk [(''extracted_sql.csv'',
                       ''id,department,salary\<newline>1,Eng,100\<newline>2,Ops,200\<newline>'')]))) = Inr out
     \<and> files (snd (transform pandas_csv ''extracted_sql.csv'' False [''salary'', ''ghost''] None
                 (disk [(''extracted_sql.csv'',
                         ''id,department,salary\<newline>1,Eng,100\<newline>2,Ops,200\<newline>'')])))
           ''transformed_sql.csv'' = Some (format_csv pandas_csv out)
     \<and> columns out = [''id'', ''department'']
     \<and> rows out = [[Num 1, Str ''Eng''], [Num 2, Str ''Ops'']])"
proof -
  let ?c = "''id,department,salary\<newline>1,Eng,100\<newline>2,Ops,200\<newline>''"
  let ?w = "disk [(''extracted_sql.csv'', ?c)]"
  let ?df = "\<lparr>columns = [''id'', ''department'', ''salary''],
               rows = [[Num (1::int), Str ''Eng'', Num 100], [Num 2, Str ''Ops'', Num 200]]\<rparr>"
  have h1: "files ?w ''extracted_sql.csv'' = Some ?c"
    by (simp add: disk_def)
  have h2: "parse_csv pandas_csv ?c = Inr ?df"
    by code_simp
  have h3: "[''salary'', ''ghost''] \<noteq> []"
    by simp
  have h4: "''transformed_sql.csv'' \<notin> write_protected ?w"
    by (simp add: disk_def)
  have h5: "None = None \<or> None = Some [] \<or>
      (''department'' \<in> set (columns ?df) \<and> ''department'' \<notin> set [''salary'', ''ghost''])"
    by simp
  have h6: "wf_dataframe ?df"
    by (simp add: wf_dataframe_def)
  from transform_drop_cols_ignores_missing[OF h1 h2 h3, where drop_null = False
      and filter_dept = None] h4 h5 h6
  obtain out where ok: "fst (transform pandas_csv ''extracted_sql.csv'' False
        [''salary'', ''ghost''] None ?w) = Inr ()"
    and o: "fst (transform_steps False [''salary'', ''ghost''] None ?df
                 (echo (transforming_msg ''extracted_sql.csv'') ?w)) = Inr out"
      "files (snd (transform pandas_csv ''extracted_sql.csv'' False [''salary'', ''ghost''] None ?w))
           ''transformed_sql.csv'' = Some (format_csv pandas_csv out)"
      "columns out = filter (\<lambda>c. c \<notin> set [''salary'', ''ghost'']) (columns ?df)"
      "rows out =
         filter (\<lambda>r'. (False \<longrightarrow> NaN \<notin> set r')
                     \<and> (\<forall>v. None = Some v \<and> v \<noteq> [] \<longrightarrow>
                            r' ! index_of ''department'' (columns out) = Str v))
           (map (\<lambda>r. map (\<lambda>c. r ! index_of c (columns ?df)) (columns out)) (rows ?df))"
    by blast
  from o(3) have c: "columns out = [''id'', ''department'']"
    by simp
  from o(4)[unfolded c] have r: "rows out = [[Num 1, Str ''Eng''], [Num 2, Str ''Ops'']]"
    by simp
  from ok o(1) o(2) c r show ?thesis
    by (intro conjI exI)
qed

subsection \<open>The order of the three steps\<close>

text \<open>
  Claim C1, as amended. When transform succeeds on a loaded input, the frame it writes is
  the input after the column drop, then the null drop, then the department filter, each
  applied when its option is true. In particular, with the null drop switched on, no row
  of the output has a missing value, and an input row with a missing value under a label
  that remains after the column drop is not in the output, whether or not the row has the
  department that the filter asks for.
\<close>

theorem transform_filter_order:
  assumes "files w input = Some content" and "parse_csv pd content = Inr df"
    and "fst (transform pd input drop_null drop_cols filter_dept w) = Inr ()"
  shows "\<exists>out. fst (transform_steps drop_null drop_cols filter_dept df
                      (echo (transforming_msg input) w)) = Inr out
           \<and> files (snd (transform pd input drop_null drop_cols filter_dept w))
                 ''transformed_sql.csv'' = Some (format_csv pd out)
           \<and> out =
               (let d1 = (if drop_cols \<noteq> [] then drop_columns drop_cols df else df);
                    d2 = (if drop_null then dropna d1 else d1)
                in case filter_dept of
                     None \<Rightarrow> d2
                   | Some v \<Rightarrow>
                       if v = [] then d2
                       else d2\<lparr>rows := filter (\<lambda>r. r ! index_of ''department'' (columns d2) = Str v)
                                           (rows d2)\<rparr>)
           \<and> (drop_null \<longrightarrow> (\<forall>r. NaN \<in> set r \<longrightarrow> r \<notin> set (rows out)))
           \<and> (drop_null \<longrightarrow>
                (\<forall>r c. r \<in> set (rows df) \<and> c \<in> set (columns out)
                        \<and> r ! index_of c (columns df) = NaN \<longrightarrow>
                       map (\<lambda>c. r ! index_of c (columns df)) (columns out) \<notin> set (rows out)))"
proof -
  from transform_success[OF assms] obtain out where
    out: "fst (transform_steps drop_null drop_cols filter_dept df
                      (echo (transforming_msg input) w)) = Inr out"
      "files (snd (transform pd input drop_null drop_cols filter_dept w))
                 ''transformed_sql.csv'' = Some (format_csv pd out)"
    by blast
  note r = steps_result[OF out(1)]
  have n: "\<forall>r. NaN \<in> set r \<longrightarrow> r \<notin> set (rows out)" if drop_null
    using that by (subst r) (auto simp add: Let_def rows_dropna split: option.splits)
  have p: "\<forall>r c. r \<in> set (rows df) \<and> c \<in> set (columns out)
                        \<and> r ! index_of c (columns df) = NaN \<longrightarrow>
                       map (\<lambda>c. r ! index_of c (columns df)) (columns out) \<notin> set (rows out)"
    if drop_null
  proof (intro allI impI, elim conjE)
    fix r :: "'a cell list" and c
    assume c: "c \<in> set (columns out)" and v: "r ! index_of c (columns df) = NaN"
    have "NaN \<in> (\<lambda>c. r ! index_of c (columns df)) ` set (columns out)"
      using c v by (metis imageI)
    then have "NaN \<in> set (map (\<lambda>c. r ! index_of c (columns df)) (columns out))"
      by simp
    with n[OF that] show "map (\<lambda>c. r ! index_of c (columns df)) (columns out) \<notin> set (rows out)"
      by blast
  qed
  from out(1) out(2) r n p show ?thesis
    by (intro exI conjI impI)
qed

theorem transform_filter_order_witness:
  "\<exists>out. fst (transform_steps True [''salary''] (Some ''Eng'')
                 \<lparr>columns = [''id'', ''department'', ''remark'', ''salary''],
                    rows = [[Num (1::int), Str ''Eng'', Str ''ok'', Str ''x''],
                            [Num 2, Str ''Eng'', NaN, Str ''y''],
                            [Num 3, Str ''Ops'', Str ''ok'', NaN]]\<rparr>
                 (echo (transforming_msg ''extracted_sql.csv'')
                    (disk [(''extracted_sql.csv'',
                       ''id,department,remark,salary\<newline>1,Eng,ok,x\<newline>2,Eng,,y\<newline>3,Ops,ok,\<newline>'')]))) = Inr out
     \<and> files (snd (transform pandas_csv ''extracted_sql.csv'' True [''salary''] (Some ''Eng'')
                 (disk [(''extracted_sql.csv'',
                       ''id,department,remark,salary\<newline>1,Eng,ok,x\<newline>2,Eng,,y\<newline>3,Ops,ok,\<newline>'')])))
           ''transformed_sql.csv'' = Some (format_csv pandas_csv out)
     \<and> out = \<lparr>columns = [''id'', ''department'', ''remark''],
               rows = [[Num 1, Str ''Eng'', Str ''ok'']]\<rparr>
     \<and> [Num 2, Str ''Eng'', NaN] \<notin> set (rows out)"
proof -
  let ?c = "''id,department,remark,salary\<newline>1,Eng,ok,x\<newline>2,Eng,,y\<newline>3,Ops,ok,\<newline>''"
  let ?w = "disk [(''extracted_sql.csv'', ?c)]"
  let ?df = "\<lparr>columns = [''id'', ''department'', ''remark'', ''salary''],
                    rows = [[Num (1::int), Str ''Eng'', Str ''ok'', Str ''x''],
                            [Num 2, Str ''Eng'', NaN, Str ''y''],
                            [Num 3, Str ''Ops'', Str ''ok'', NaN]]\<rparr>"
  have h1: "files ?w ''extracted_sql.csv'' = Some ?c"
    by (simp add: disk_def)
  have h2: "parse_csv pandas_csv ?c = Inr ?df"
    by code_simp
  have h3: "fst (transform pandas_csv ''extracted_sql.csv'' True [''salary''] (Some ''Eng'') ?w) = Inr ()"
    by code_simp
  have e: "(let d1 = (if [''salary''] \<noteq> [] then drop_columns [''salary''] ?df else ?df);
                d2 = (if True then dropna d1 else d1)
            in case Some ''Eng'' of
                 None \<Rightarrow> d2
               | Some v \<Rightarrow>
                   if v = [] then d2
                   else d2\<lparr>rows := filter (\<lambda>r. r ! index_of ''department'' (columns d2) = Str v)
                                       (rows d2)\<rparr>)
           = \<lparr>columns = [''id'', ''department'', ''remark''],
               rows = [[Num 1, Str ''Eng'', Str ''ok'']]\<rparr>"
    by code_simp
  from transform_filter_order[OF h1 h2 h3] obtain out where
    o: "fst (transform_steps True [''salary''] (Some ''Eng'') ?df
                 (echo (transforming_msg ''extracted_sql.csv'') ?w)) = Inr out"
      "files (snd (transform pandas_csv ''extracted_sql.csv'' True [''salary''] (Some ''Eng'') ?w))
           ''transformed_sql.csv'' = Some (format_csv pandas_csv out)"
      "out = \<lparr>columns = [''id'', ''department'', ''remark''],
               rows = [[Num 1, Str ''Eng'', Str ''ok'']]\<rparr>"
      "\<forall>r. NaN \<in> set r \<longrightarrow> r \<notin> set (rows out)"
    unfolding e by blast
  from o(4) have "[Num 2, Str ''Eng'', NaN] \<notin> set (rows out)"
    by simp
  with o(1) o(2) o(3) show ?thesis
    by (intro exI conjI)
qed

text \<open>
  The claim as stated, a null in any column removes the row, fails for a null in a column
  that is dropped: the columns go first, so the null drop no longer sees it. With
  \<^verbatim>\<open>--drop-cols salary --drop-null\<close> the row whose only missing value is the salary is
  written, without the salary.
\<close>

theorem transform_filter_order_counterexample:
  "parse_csv pandas_csv ''id,department,salary\<newline>1,Eng,\<newline>2,Ops,x\<newline>''
     = Inr \<lparr>columns = [''id'', ''department'', ''salary''],
            rows = [[Num 1, Str ''Eng'', NaN], [Num 2, Str ''Ops'', Str ''x'']]\<rparr>
   \<and> fst (transform pandas_csv ''extracted_sql.csv'' True [''salary''] None
          (disk [(''extracted_sql.csv'', ''id,department,salary\<newline>1,Eng,\<newline>2,Ops,x\<newline>'')]))
       = Inr ()
   \<and> files (snd (transform pandas_csv ''extracted_sql.csv'' True [''salary''] None
          (disk [(''extracted_sql.csv'', ''id,department,salary\<newline>1,Eng,\<newline>2,Ops,x\<newline>'')])))
          ''transformed_sql.csv''
       = Some ''id,department\<newline>1,Eng\<newline>2,Ops\<newline>''
   \<and> fst (transform_steps True [''salary''] None
          \<lparr>columns = [''id'', ''department'', ''salary''],
             rows = [[Num (1::int), Str ''Eng'', NaN], [Num 2, Str ''Ops'', Str ''x'']]\<rparr>
          (disk []))
       = Inr \<lparr>columns = [''id'', ''department''],
              rows = [[Num 1, Str ''Eng''], [Num 2, Str ''Ops'']]\<rparr>"
  by code_simp

subsection \<open>Rows are kept as they are\<close>

text \<open>
  Claim C10. When transform succeeds on a loaded, well-formed input (distinct labels, one
  cell per label in every row), the rows it writes are a subsequence of the input's rows,
  each restricted to the output's columns: every cell of a surviving row is the cell the
  input has under that label, and the surviving rows stand in the input's order.
\<close>

theorem transform_rows_preserved:
  assumes "files w input = Some content" and "parse_csv pd content = Inr (df::'a dataframe)"
    and "wf_dataframe df"
    and "fst (transform pd input drop_null drop_cols filter_dept w) = Inr ()"
  shows "\<exists>out rs. fst (transform_steps drop_null drop_cols filter_dept df
                      (echo (transforming_msg input) w)) = Inr out
           \<and> files (snd (transform pd input drop_null drop_cols filter_dept w))
                 ''transformed_sql.csv'' = Some (format_csv pd out)
           \<and> subseq rs (rows df)
           \<and> rows out = map (\<lambda>r. map (\<lambda>c. r ! index_of c (columns df)) (columns out)) rs"
proof -
  from transform_success[OF assms(1,2,4)] obtain out where
    out: "fst (transform_steps drop_null drop_cols filter_dept df
                      (echo (transforming_msg input) w)) = Inr out"
      "files (snd (transform pd input drop_null drop_cols filter_dept w))
                 ''transformed_sql.csv'' = Some (format_csv pd out)"
    by blast
  define proj where "proj = (\<lambda>r::'a cell list. map (\<lambda>c. r ! index_of c (columns df)) (columns out))"
  have cols: "columns out = filter (\<lambda>c. c \<notin> set drop_cols) (columns df)"
    by (rule steps_columns[OF out(1)])
  from steps_rows_filtered[OF out(1)] obtain Q where
    "rows out = filter Q (rows (if drop_cols \<noteq> [] then drop_columns drop_cols df else df))"
    by blast
  then have "rows out = filter Q (map proj (rows df))"
    unfolding drop_step_rows[OF assms(3)] proj_def cols .
  then have m: "rows out = map proj (filter (Q \<circ> proj) (rows df))"
    by (simp only: filter_map)
  have s: "subseq (filter (Q \<circ> proj) (rows df)) (rows df)"
    by (rule subseq_filter_left)
  from out(1) out(2) s[unfolded proj_def] m[unfolded proj_def] show ?thesis
    by (intro exI conjI)
qed

theorem transform_rows_preserved_witness:
  "\<exists>out rs. fst (transform_steps True [''id''] (Some ''Eng'')
                 \<lparr>columns = [''id'', ''department'', ''remark''],
                    rows = [[Num (1::int), Str ''Eng'', Str ''ok''],
                            [Num 2, Str ''Ops'', Str ''ok''],
                            [Num 3, Str ''Eng'', NaN],
                            [Num 4, Str ''Eng'', Str ''yes'']]\<rparr>
                 (echo (transforming_msg ''extracted_sql.csv'')
                    (disk [(''extracted_sql.csv'',
                       ''id,department,remark\<newline>1,Eng,ok\<newline>2,Ops,ok\<newline>3,Eng,\<newline>4,Eng,yes\<newline>'')]))) = Inr out
     \<and> files (snd (transform pandas_csv ''extracted_sql.csv'' True [''id''] (Some ''Eng'')
                 (disk [(''extracted_sql.csv'',
                       ''id,department,remark\<newline>1,Eng,ok\<newline>2,Ops,ok\<newline>3,Eng,\<newline>4,Eng,yes\<newline>'')])))
           ''transformed_sql.csv'' = Some (format_csv pandas_csv out)
     \<and> subseq rs [[Num 1, Str ''Eng'', Str ''ok''],
                   [Num 2, Str ''Ops'', Str ''ok''],
                   [Num 3, Str ''Eng'', NaN],
                   [Num 4, Str ''Eng'', Str ''yes'']]
     \<and> rows out = map (\<lambda>r. map (\<lambda>c. r ! index_of c [''id'', ''department'', ''remark''])
                                (columns out)) rs
     \<and> out = \<lparr>columns = [''department'', ''remark''],
               rows = [[Str ''Eng'', Str ''ok''], [Str ''Eng'', Str ''yes'']]\<rparr>"
proof -
  let ?c = "''id,department,remark\<newline>1,Eng,ok\<newline>2,Ops,ok\<newline>3,Eng,\<newline>4,Eng,yes\<newline>''"
  let ?w = "disk [(''extracted_sql.csv'', ?c)]"
  let ?df = "\<lparr>columns = [''id'', ''department'', ''remark''],
                    rows = [[Num (1::int), Str ''Eng'', Str ''ok''],
                            [Num 2, Str ''Ops'', Str ''ok''],
                            [Num 3, Str ''Eng'', NaN],
                            [Num 4, Str ''Eng'', Str ''yes'']]\<rparr>"
  have h1: "files ?w ''extracted_sql.csv'' = Some ?c"
    by (simp add: disk_def)
  have h2: "parse_csv pandas_csv ?c = Inr ?df"
    by code_simp
  have h3: "wf_dataframe ?df"
    by (simp add: wf_dataframe_def)
  have h4: "fst (transform pandas_csv ''extracted_sql.csv'' True [''id''] (Some ''Eng'') ?w) = Inr ()"
    by code_simp
  have e: "fst (transform_steps True [''id''] (Some ''Eng'') ?df
                 (echo (transforming_msg ''extracted_sql.csv'') ?w))
           = Inr \<lparr>columns = [''department'', ''remark''],
               rows = [[Str ''Eng'', Str ''ok''], [Str ''Eng'', Str ''yes'']]\<rparr>"
    by code_simp
  from transform_rows_preserved[OF h1 h2 h3 h4] obtain out rs where
    o: "fst (transform_steps True [''id''] (Some ''Eng'') ?df
                 (echo (transforming_msg ''extracted_sql.csv'') ?w)) = Inr out"
      "files (snd (transform pandas_csv ''extracted_sql.csv'' True [''id''] (Some ''Eng'') ?w))
           ''transformed_sql.csv'' = Some (format_csv pandas_csv out)"
      "subseq rs (rows ?df)"
      "rows out = map (\<lambda>r. map (\<lambda>c. r ! index_of c (columns ?df)) (columns out)) rs"
    by blast
  from o(1) e have "out = \<lparr>columns = [''department'', ''remark''],
               rows = [[Str ''Eng'', Str ''ok''], [Str ''Eng'', Str ''yes'']]\<rparr>"
    by simp
  with o show ?thesis
    by (intro exI[where x = out] exI[where x = rs]) simp
qed

subsection \<open>The lines transform prints\<close>

lemma dropped_prefix_facts:
  "\<not> prefix dropped_columns_prefix (transforming_msg input)"
  "prefix dropped_columns_prefix (dropped_columns_msg cs)"
  "\<not> prefix dropped_columns_prefix dropped_nulls_msg"
  "\<not> prefix dropped_columns_prefix (filtered_msg v)"
  "\<not> prefix dropped_columns_prefix (saved_msg p)"
  by (simp_all add: dropped_columns_prefix_def transforming_msg_def dropped_columns_msg_def
      dropped_nulls_msg_def filtered_msg_def filtered_prefix_def saved_msg_def
      broom_def wrench_def magnifier_right_def folder_def)

lemma filtered_prefix_fact: "prefix filtered_prefix (filtered_msg v)"
  by (simp add: filtered_msg_def)

lemma steps_stdout:
  "stdout (snd (transform_steps drop_null drop_cols filter_dept df w)) =
     stdout w
     @ (if drop_cols \<noteq> [] then [dropped_columns_msg drop_cols] else [])
     @ (if drop_null then [dropped_nulls_msg] else [])
     @ (case filter_dept of
          None \<Rightarrow> []
        | Some v \<Rightarrow>
            if v \<noteq> [] \<and> ''department'' \<in> set (columns df) \<and> ''department'' \<notin> set drop_cols
            then [filtered_msg v] else [])"
proof (cases "\<exists>v. filter_dept = Some v \<and> v \<noteq> []")
  case False
  then have "filter_dept = None \<or> filter_dept = Some []"
    by (cases filter_dept) auto
  then show ?thesis
    by (auto simp add: steps_inactive Let_def stdout_echo)
next
  case True
  then obtain v where v: "filter_dept = Some v" "v \<noteq> []"
    by blast
  show ?thesis
  proof (cases "''department'' \<in> set (columns df) \<and> ''department'' \<notin> set drop_cols")
    case True
    with v show ?thesis
      by (simp add: steps_filter Let_def stdout_echo)
  next
    case False
    with v show ?thesis
      by (auto simp add: steps_key_error Let_def stdout_echo)
  qed
qed

lemma transform_emitted:
  assumes "files w input = Some content" and "parse_csv pd content = Inr df"
  shows "emitted w (snd (transform pd input drop_null drop_cols filter_dept w)) =
     [transforming_msg input]
     @ (if drop_cols \<noteq> [] then [dropped_columns_msg drop_cols] else [])
     @ (if drop_null then [dropped_nulls_msg] else [])
     @ (case filter_dept of
          None \<Rightarrow> []
        | Some v \<Rightarrow>
            if v \<noteq> [] \<and> ''department'' \<in> set (columns df) \<and> ''department'' \<notin> set drop_cols
            then [filtered_msg v] else [])
     @ (if fst (transform pd input drop_null drop_cols filter_dept w) = Inr ()
        then [saved_msg ''transformed_sql.csv''] else [])"
proof -
  let ?w1 = "echo (transforming_msg input) w"
  let ?s = "transform_steps drop_null drop_cols filter_dept df ?w1"
  obtain res w2 where s: "?s = (res, w2)"
    by (cases ?s)
  have out2: "stdout w2 = stdout w @ [transforming_msg input]
     @ (if drop_cols \<noteq> [] then [dropped_columns_msg drop_cols] else [])
     @ (if drop_null then [dropped_nulls_msg] else [])
     @ (case filter_dept of
          None \<Rightarrow> []
        | Some v \<Rightarrow>
            if v \<noteq> [] \<and> ''department'' \<in> set (columns df) \<and> ''department'' \<notin> set drop_cols
            then [filtered_msg v] else [])"
    using steps_stdout[of drop_null drop_cols filter_dept df ?w1] s
    by (simp add: stdout_echo)
  show ?thesis
    unfolding transform_loaded[OF assms] s
    by (cases res) (auto simp add: emitted_def out2 to_csv_def stdout_echo)
qed

text \<open>
  Claim C8, as amended. On every run of transform that loads its input, the line about
  dropped columns is printed exactly when at least one name to drop was given, once and
  with the names given; the line about the department filter is printed exactly when the
  department option is not empty and the column \<^verbatim>\<open>department\<close> is there after the column
  drop, that is, when the filter was applied, once and with the department given. Without
  an option there is no line of its kind.
\<close>

theorem transform_messages:
  assumes "files w input = Some content" and "parse_csv pd content = Inr df"
  shows "filter (prefix dropped_columns_prefix)
           (emitted w (snd (transform pd input drop_null drop_cols filter_dept w)))
         = (if drop_cols \<noteq> [] then [dropped_columns_msg drop_cols] else [])
       \<and> filter (prefix filtered_prefix)
           (emitted w (snd (transform pd input drop_null drop_cols filter_dept w)))
         = (case filter_dept of
              None \<Rightarrow> []
            | Some v \<Rightarrow>
                if v \<noteq> [] \<and> ''department'' \<in> set (columns df) \<and> ''department'' \<notin> set drop_cols
                then [filtered_msg v] else [])"
proof -
  note e = transform_emitted[OF assms, of drop_null drop_cols filter_dept]
  have a: "filter (prefix dropped_columns_prefix)
           (emitted w (snd (transform pd input drop_null drop_cols filter_dept w)))
         = (if drop_cols \<noteq> [] then [dropped_columns_msg drop_cols] else [])"
    unfolding e by (simp add: dropped_prefix_facts split: option.splits)
  have b: "filter (prefix filtered_prefix)
           (emitted w (snd (transform pd input drop_null drop_cols filter_dept w)))
         = (case filter_dept of
              None \<Rightarrow> []
            | Some v \<Rightarrow>
                if v \<noteq> [] \<and> ''department'' \<in> set (columns df) \<and> ''department'' \<notin> set drop_cols
                then [filtered_msg v] else [])"
    unfolding e
    by (simp add: wrench_not_filtered broom_not_filtered1 broom_not_filtered2
        folder_not_filtered filtered_prefix_fact split: option.splits)
  from a b show ?thesis
    by (rule conjI)
qed

theorem transform_messages_witness:
  "filter (prefix dropped_columns_prefix)
     (emitted (disk [(''extracted_sql.csv'', ''id,department\<newline>1,Eng\<newline>2,Ops\<newline>'')])
        (snd (transform pandas_csv ''extracted_sql.csv'' False [''id'', ''ghost''] (Some ''Eng'')
           (disk [(''extracted_sql.csv'', ''id,department\<newline>1,Eng\<newline>2,Ops\<newline>'')]))))
     = [dropped_columns_msg [''id'', ''ghost'']]
   \<and> filter (prefix filtered_prefix)
     (emitted (disk [(''extracted_sql.csv'', ''id,department\<newline>1,Eng\<newline>2,Ops\<newline>'')])
        (snd (transform pandas_csv ''extracted_sql.csv'' False [''id'', ''ghost''] (Some ''Eng'')
           (disk [(''extracted_sql.csv'', ''id,department\<newline>1,Eng\<newline>2,Ops\<newline>'')]))))
     = [filtered_msg ''Eng'']"
proof -
  let ?c = "''id,department\<newline>1,Eng\<newline>2,Ops\<newline>''"
  let ?w = "disk [(''extracted_sql.csv'', ?c)]"
  let ?df = "\<lparr>columns = [''id'', ''department''],
              rows = [[Num (1::int), Str ''Eng''], [Num 2, Str ''Ops'']]\<rparr>"
  have h1: "files ?w ''extracted_sql.csv'' = Some ?c"
    by (simp add: disk_def)
  have h2: "parse_csv pandas_csv ?c = Inr ?df"
    by code_simp
  from transform_messages[OF h1 h2, of False "[''id'', ''ghost'']" "Some ''Eng''"]
  show ?thesis
    by simp
qed

text \<open>
  The claim as stated, a line if and only if the option was supplied, fails in three ways:
  with the empty string as department the command succeeds without a line about the
  filter; with a department and no such column the command stops with KeyError before the
  line is printed; and when the input file is missing nothing but the first line is
  printed, although names to drop were given.
\<close>

theorem transform_messages_counterexample:
  "fst (transform pandas_csv ''extracted_sql.csv'' False [] (Some '''')
          (disk [(''extracted_sql.csv'', ''id,department\<newline>1,Eng\<newline>'')])) = Inr ()
   \<and> emitted (disk [(''extracted_sql.csv'', ''id,department\<newline>1,Eng\<newline>'')])
        (snd (transform pandas_csv ''extracted_sql.csv'' False [] (Some '''')
           (disk [(''extracted_sql.csv'', ''id,department\<newline>1,Eng\<newline>'')])))
       = [transforming_msg ''extracted_sql.csv'', saved_msg ''transformed_sql.csv'']
   \<and> \<not> list_ex (prefix filtered_prefix)
        (emitted (disk [(''extracted_sql.csv'', ''id,department\<newline>1,Eng\<newline>'')])
           (snd (transform pandas_csv ''extracted_sql.csv'' False [] (Some '''')
              (disk [(''extracted_sql.csv'', ''id,department\<newline>1,Eng\<newline>'')]))))
   \<and> fst (transform pandas_csv ''extracted_sql.csv'' False [] (Some ''Eng'')
          (disk [(''extracted_sql.csv'', ''id\<newline>1\<newline>'')])) = Inl (KeyError ''department'')
   \<and> emitted (disk [(''extracted_sql.csv'', ''id\<newline>1\<newline>'')])
        (snd (transform pandas_csv ''extracted_sql.csv'' False [] (Some ''Eng'')
           (disk [(''extracted_sql.csv'', ''id\<newline>1\<newline>'')])))
       = [transforming_msg ''extracted_sql.csv'']
   \<and> fst (transform pandas_csv ''extracted_sql.csv'' False [''id''] None (disk []))
       = Inl (FileNotFoundError ''extracted_sql.csv'')
   \<and> emitted (disk [])
        (snd (transform pandas_csv ''extracted_sql.csv'' False [''id''] None (disk [])))
       = [transforming_msg ''extracted_sql.csv'']"
  by code_simp

subsection \<open>The validate command\<close>

lemma values_any_isnull: "values_any (isnull df) = (\<exists>r\<in>set (rows df). NaN \<in> set r)"
  by (auto simp add: values_any_def isnull_def list_ex_iff)

lemma duplicated_after_any:
  "list_ex (\<lambda>b. b) (duplicated_after seen rs) = ((\<exists>r\<in>set rs. r \<in> set seen) \<or> \<not> distinct rs)"
  by (induction rs arbitrary: seen) auto

lemma series_any_duplicated: "series_any (duplicated df) = (\<not> distinct (rows df))"
  by (simp add: series_any_def duplicated_def duplicated_after_any)

lemma issue_msgs_differ: "null_values_msg \<noteq> duplicate_rows_msg"
  by (simp add: null_values_msg_def duplicate_rows_msg_def exclamation_def)

text \<open>
  Claim C6. On a loaded input, validate makes both checks and returns normally. After the
  first line it prints the line about null values when some row has a missing value, then
  the line about duplicate rows when some row equals another row, and the two lines are
  different texts; so a frame with both defects gets both lines. When neither check
  finds anything it prints the single line that the data passed.
\<close>

theorem validate_reports:
  assumes "files w input = Some content" and "parse_csv pd content = Inr df"
  shows "fst (validate pd input w) = Inr ()
       \<and> emitted w (snd (validate pd input w)) =
           validating_msg input #
           (if (\<exists>r\<in>set (rows df). NaN \<in> set r) \<or> \<not> distinct (rows df)
            then (if \<exists>r\<in>set (rows df). NaN \<in> set r then [null_values_msg] else [])
                 @ (if \<not> distinct (rows df) then [duplicate_rows_msg] else [])
            else [passed_msg])
       \<and> null_values_msg \<noteq> duplicate_rows_msg"
  using assms
  by (simp add: validate_def read_csv_def files_echo values_any_isnull series_any_duplicated
      emitted_def stdout_echo issue_msgs_differ Let_def)

theorem validate_reports_witness:
  "fst (validate pandas_csv ''transformed_sql.csv''
          (disk [(''transformed_sql.csv'',
                  ''id,department,remark\<newline>1,Eng,ok\<newline>2,Eng,\<newline>2,Eng,\<newline>'')])) = Inr ()
   \<and> emitted (disk [(''transformed_sql.csv'',
                  ''id,department,remark\<newline>1,Eng,ok\<newline>2,Eng,\<newline>2,Eng,\<newline>'')])
        (snd (validate pandas_csv ''transformed_sql.csv''
          (disk [(''transformed_sql.csv'',
                  ''id,department,remark\<newline>1,Eng,ok\<newline>2,Eng,\<newline>2,Eng,\<newline>'')])))
       = [validating_msg ''transformed_sql.csv'', null_values_msg, duplicate_rows_msg]
   \<and> emitted (disk [(''transformed_sql.csv'', ''id,department\<newline>1,Eng\<newline>2,Ops\<newline>'')])
        (snd (validate pandas_csv ''transformed_sql.csv''
          (disk [(''transformed_sql.csv'', ''id,department\<newline>1,Eng\<newline>2,Ops\<newline>'')])))
       = [validating_msg ''transformed_sql.csv'', passed_msg]"
proof -
  let ?c = "''id,department,remark\<newline>1,Eng,ok\<newline>2,Eng,\<newline>2,Eng,\<newline>''"
  let ?w = "disk [(''transformed_sql.csv'', ?c)]"
  let ?df = "\<lparr>columns = [''id'', ''department'', ''remark''],
              rows = [[Num (1::int), Str ''Eng'', Str ''ok''], [Num 2, Str ''Eng'', NaN],
                      [Num 2, Str ''Eng'', NaN]]\<rparr>"
  let ?c' = "''id,department\<newline>1,Eng\<newline>2,Ops\<newline>''"
  let ?w' = "disk [(''transformed_sql.csv'', ?c')]"
  let ?df' = "\<lparr>columns = [''id'', ''department''],
              rows = [[Num (1::int), Str ''Eng''], [Num 2, Str ''Ops'']]\<rparr>"
  have h1: "files ?w ''transformed_sql.csv'' = Some ?c"
    by (simp add: disk_def)
  have h2: "parse_csv pandas_csv ?c = Inr ?df"
    by code_simp
  have h1': "files ?w' ''transformed_sql.csv'' = Some ?c'"
    by (simp add: disk_def)
  have h2': "parse_csv pandas_csv ?c' = Inr ?df'"
    by code_simp
  from validate_reports[OF h1 h2] validate_reports[OF h1' h2']
  show ?thesis
    by simp
qed

subsection \<open>The load command\<close>




subsection \<open>The extract command\<close>

text \<open>
  When the connection was opened and the query fails, the command ends with the query's
  error and one more connection open than before; when the query succeeds, the
  connection is closed again.
\<close>

lemma extract_query_failure_keeps_connection:
  assumes "pyodbc_connect db (conn_str w) = None"
    and "read_sql db (''SELECT * FROM '' @ table) = Inl e"
  shows "fst (extract_table db pd table w) = Inl e
       \<and> open_connections (snd (extract_table db pd table w)) = Suc (open_connections w)"
  using assms by (simp add: extract_table_def echo_def conn_str_def getenv_text_def Let_def)

lemma extract_success_closes_connection:
  assumes "pyodbc_connect db (conn_str w) = None"
    and "read_sql db (''SELECT * FROM '' @ table) = Inr df"
  shows "open_connections (snd (extract_table db pd table w)) = open_connections w"
  using assms
  by (simp add: extract_table_def echo_def conn_str_def getenv_text_def Let_def to_csv_def)

text \<open>
  Claim C7 says that the connection is closed on every path. It is not when the query
  fails: extracting the table \<^verbatim>\<open>missing\<close>, which the server rejects, ends with
  DatabaseError and leaves the connection open, while extracting \<^verbatim>\<open>staff\<close> closes it.
\<close>

theorem extract_leaves_connection_open:
  "fst (extract_table staff_db pandas_csv ''missing'' (disk [])) = Inl DatabaseError
   \<and> open_connections (disk []) = 0
   \<and> open_connections (snd (extract_table staff_db pandas_csv ''missing'' (disk []))) = 1
   \<and> fst (extract_table staff_db pandas_csv ''staff'' (disk [])) = Inr ()
   \<and> open_connections (snd (extract_table staff_db pandas_csv ''staff'' (disk []))) = 0"
  by code_simp

end
